theory Spec2Isabelle
  imports Main "HOL-Library.Word"
begin

section \<open>The gRPC front end of flagd: \<open>pkg/service/grpc_service.go\<close>\<close>

text \<open>
  The file under verification is the gRPC access layer of the flag daemon. It holds
  \<^item> \<open>Serve\<close>: transport set-up (optional TLS, unix socket or TCP) and the wait for shutdown;
  \<^item> five handlers \<open>ResolveBoolean\<close>, \<open>ResolveString\<close>, \<open>ResolveInt\<close>, \<open>ResolveFloat\<close>,
    \<open>ResolveObject\<close>, each calling the evaluator and building a response;
  \<^item> \<open>HandleEvaluationError\<close>: the translation of an evaluator error into a gRPC status.

  Everything the file calls but does not define is a parameter of the model: the evaluator
  (an interface value), the two string constants of package \<open>model\<close>, the TLS loader, the
  listener factory, the protobuf conversions. The small part of the gRPC \<open>status\<close> package
  that the file relies on (\<open>New\<close>, \<open>WithDetails\<close>, \<open>Err\<close>) is written out, since the result
  of \<open>HandleEvaluationError\<close> is built by it.
\<close>

subsection \<open>Errors, status codes and statuses\<close>

text \<open>
  A Go \<open>error\<close> is used by this file only through \<open>err.Error()\<close> and through the test
  \<open>err != nil\<close>. An error value is therefore its message, and \<open>error option\<close> is a Go
  \<open>error\<close> that may be \<open>nil\<close>.
\<close>

type_synonym error = string

text \<open>The codes of package \<open>google.golang.org/grpc/codes\<close>, in their numeric order.\<close>

datatype codes =
    OK | Canceled | Unknown | InvalidArgument | DeadlineExceeded | NotFound
  | AlreadyExists | PermissionDenied | ResourceExhausted | FailedPrecondition
  | Aborted | OutOfRange | Unimplemented | Internal | Unavailable | DataLoss
  | Unauthenticated

text \<open>The detail message \<open>gen.ErrorResponse\<close> of the schema.\<close>

record ErrorResponse =
  ErrorCode :: string
  ErrReason :: string

text \<open>
  A \<open>status.Status\<close>: code, message and the attached details. The only detail
  messages this file ever attaches are \<open>ErrorResponse\<close>s, so the details are a list of them.
\<close>

record Status =
  Code :: codes
  Message :: string
  Details :: "ErrorResponse list"

definition status_New :: "codes \<Rightarrow> string \<Rightarrow> Status" where
  "status_New c msg = \<lparr>Code = c, Message = msg, Details = []\<rparr>"

text \<open>
  \<open>(*Status).WithDetails\<close> refuses a status with code \<open>OK\<close>; otherwise it packs the detail
  message into an \<open>Any\<close> and appends it to a copy of the status. Packing marshals the
  message and may fail; whether it fails for a given message is decided by the protobuf
  runtime, here the parameter \<open>anyNew\<close> (\<open>Some e\<close>: packing fails with error \<open>e\<close>).
\<close>

definition WithDetails ::
  "(ErrorResponse \<Rightarrow> error option) \<Rightarrow> Status \<Rightarrow> ErrorResponse \<Rightarrow> error + Status" where
  "WithDetails anyNew s d =
     (if Code s = OK then Inl ''no error details for status with code OK''
      else case anyNew d of
             Some e \<Rightarrow> Inl e
           | None \<Rightarrow> Inr (s\<lparr>Details := Details s @ [d]\<rparr>))"

text \<open>
  \<open>(*Status).Err\<close>: \<open>nil\<close> for code \<open>OK\<close>, otherwise an error wrapping the status. The
  error returned by a handler is always produced by \<open>Err\<close>, so it is a \<open>Status option\<close>.
\<close>

definition Err :: "Status \<Rightarrow> Status option" where
  "Err s = (if Code s = OK then None else Some s)"

subsection \<open>The constants of package \<open>model\<close>\<close>

text \<open>
  \<open>model.FlagNotFoundErrorCode\<close> and \<open>model.TypeMismatchErrorCode\<close> are string constants
  declared outside this file. They are the two \<open>case\<close> labels of one expression
  \<open>switch\<close>, which the Go compiler accepts only if they differ.
\<close>

record model =
  FlagNotFoundErrorCode :: string
  TypeMismatchErrorCode :: string

subsection \<open>The service state\<close>

text \<open>
  What a handler can change: the state behind the evaluator interface (of any type \<open>'s\<close>)
  and the entries written to \<open>s.Logger\<close>.
\<close>

record 's GRPCService =
  Eval :: 's
  Logger :: "error list"

subsection \<open>\<open>HandleEvaluationError\<close>\<close>

definition HandleEvaluationError ::
  "model \<Rightarrow> (ErrorResponse \<Rightarrow> error option) \<Rightarrow> error \<Rightarrow> string \<Rightarrow> 's GRPCService
     \<Rightarrow> Status option \<times> 's GRPCService" where
  "HandleEvaluationError M anyNew err reason s =
     (let message = err;
          statusCode =
            (if message = FlagNotFoundErrorCode M then NotFound
             else if message = TypeMismatchErrorCode M then InvalidArgument
             else Internal);
          st = status_New statusCode message
      in case WithDetails anyNew st \<lparr>ErrorCode = message, ErrReason = ''ERROR''\<rparr> of
           Inl err' \<Rightarrow> (Err st, s\<lparr>Logger := Logger s @ [err']\<rparr>)
         | Inr stWD \<Rightarrow> (Err stWD, s))"

subsection \<open>Requests, responses and the evaluator\<close>

text \<open>
  The five request messages of the schema have the same two fields, read through
  \<open>GetFlagKey\<close> and \<open>GetContext\<close>; the context is a pointer to a protobuf \<open>Struct\<close> and
  may be \<open>nil\<close>. The five response messages differ in the type of \<open>Value\<close> only.
\<close>

record 'c Request =
  FlagKey :: string
  Context :: "'c option"

record 'v Response =
  Value :: 'v
  Variant :: string
  Reason :: string

text \<open>
  Go's \<open>int64\<close> is a 64-bit word. A \<open>float64\<close> is carried as its 64 bits: the handlers
  only copy it, and its zero value \<open>+0.0\<close> is the word \<open>0\<close>.
\<close>

type_synonym int64 = "64 word"
type_synonym float64 = "64 word"

text \<open>
  \<open>eval.IEvaluator\<close> is an interface, so a call may read and change state of its own.
  Each method takes the flag key, the context and the evaluator's state (type \<open>'s\<close>) and
  returns the four results of the Go method together with the new state. \<open>'o\<close> is the
  type of Go maps \<open>map[string]interface{}\<close>, \<open>'c\<close> the type of protobuf \<open>Struct\<close>s.
\<close>

record ('s, 'c, 'o) IEvaluator =
  ResolveBooleanValue ::
    "string \<Rightarrow> 'c option \<Rightarrow> 's \<Rightarrow> (bool \<times> string \<times> string \<times> error option) \<times> 's"
  ResolveStringValue ::
    "string \<Rightarrow> 'c option \<Rightarrow> 's \<Rightarrow> (string \<times> string \<times> string \<times> error option) \<times> 's"
  ResolveIntValue ::
    "string \<Rightarrow> 'c option \<Rightarrow> 's \<Rightarrow> (int64 \<times> string \<times> string \<times> error option) \<times> 's"
  ResolveFloatValue ::
    "string \<Rightarrow> 'c option \<Rightarrow> 's \<Rightarrow> (float64 \<times> string \<times> string \<times> error option) \<times> 's"
  ResolveObjectValue ::
    "string \<Rightarrow> 'c option \<Rightarrow> 's \<Rightarrow> ('o \<times> string \<times> string \<times> error option) \<times> 's"

subsection \<open>The five handlers\<close>

text \<open>
  Each handler returns the response, the error (\<open>None\<close> is \<open>nil\<close>) and the service state
  after the call. \<open>res\<close> starts as the zero value of the response message.
\<close>

definition ResolveBoolean ::
  "model \<Rightarrow> (ErrorResponse \<Rightarrow> error option) \<Rightarrow> ('s, 'c, 'o) IEvaluator \<Rightarrow> 'c Request
     \<Rightarrow> 's GRPCService \<Rightarrow> (bool Response \<times> Status option) \<times> 's GRPCService" where
  "ResolveBoolean M anyNew ev req s =
     (let res = \<lparr>Value = False, Variant = [], Reason = []\<rparr>;
          ((result, variant, reason, err), e) =
             ResolveBooleanValue ev (FlagKey req) (Context req) (Eval s);
          s = s\<lparr>Eval := e\<rparr>
      in case err of
           Some err \<Rightarrow>
             (let (st, s) = HandleEvaluationError M anyNew err reason s in ((res, st), s))
         | None \<Rightarrow>
             ((res\<lparr>Reason := reason, Value := result, Variant := variant\<rparr>, None), s))"

definition ResolveString ::
  "model \<Rightarrow> (ErrorResponse \<Rightarrow> error option) \<Rightarrow> ('s, 'c, 'o) IEvaluator \<Rightarrow> 'c Request
     \<Rightarrow> 's GRPCService \<Rightarrow> (string Response \<times> Status option) \<times> 's GRPCService" where
  "ResolveString M anyNew ev req s =
     (let res = \<lparr>Value = [], Variant = [], Reason = []\<rparr>;
          ((result, variant, reason, err), e) =
             ResolveStringValue ev (FlagKey req) (Context req) (Eval s);
          s = s\<lparr>Eval := e\<rparr>
      in case err of
           Some err \<Rightarrow>
             (let (st, s) = HandleEvaluationError M anyNew err reason s in ((res, st), s))
         | None \<Rightarrow>
             ((res\<lparr>Reason := reason, Value := result, Variant := variant\<rparr>, None), s))"

definition ResolveInt ::
  "model \<Rightarrow> (ErrorResponse \<Rightarrow> error option) \<Rightarrow> ('s, 'c, 'o) IEvaluator \<Rightarrow> 'c Request
     \<Rightarrow> 's GRPCService \<Rightarrow> (int64 Response \<times> Status option) \<times> 's GRPCService" where
  "ResolveInt M anyNew ev req s =
     (let res = \<lparr>Value = 0, Variant = [], Reason = []\<rparr>;
          ((result, variant, reason, err), e) =
             ResolveIntValue ev (FlagKey req) (Context req) (Eval s);
          s = s\<lparr>Eval := e\<rparr>
      in case err of
           Some err \<Rightarrow>
             (let (st, s) = HandleEvaluationError M anyNew err reason s in ((res, st), s))
         | None \<Rightarrow>
             ((res\<lparr>Reason := reason, Value := result, Variant := variant\<rparr>, None), s))"

definition ResolveFloat ::
  "model \<Rightarrow> (ErrorResponse \<Rightarrow> error option) \<Rightarrow> ('s, 'c, 'o) IEvaluator \<Rightarrow> 'c Request
     \<Rightarrow> 's GRPCService \<Rightarrow> (float64 Response \<times> Status option) \<times> 's GRPCService" where
  "ResolveFloat M anyNew ev req s =
     (let res = \<lparr>Value = 0, Variant = [], Reason = []\<rparr>;
          ((result, variant, reason, err), e) =
             ResolveFloatValue ev (FlagKey req) (Context req) (Eval s);
          s = s\<lparr>Eval := e\<rparr>
      in case err of
           Some err \<Rightarrow>
             (let (st, s) = HandleEvaluationError M anyNew err reason s in ((res, st), s))
         | None \<Rightarrow>
             ((res\<lparr>Reason := reason, Value := result, Variant := variant\<rparr>, None), s))"

text \<open>
  \<open>ResolveObject\<close> converts the evaluator's map with \<open>structpb.NewStruct\<close>, here the
  parameter \<open>newStruct\<close>, which fails on a value it cannot represent. The response's
  \<open>Value\<close> is a pointer to a \<open>Struct\<close>, \<open>nil\<close> in the zero response.
\<close>

definition ResolveObject ::
  "model \<Rightarrow> (ErrorResponse \<Rightarrow> error option) \<Rightarrow> ('o \<Rightarrow> error + 'c) \<Rightarrow> ('s, 'c, 'o) IEvaluator
     \<Rightarrow> 'c Request \<Rightarrow> 's GRPCService
     \<Rightarrow> ('c option Response \<times> Status option) \<times> 's GRPCService" where
  "ResolveObject M anyNew newStruct ev req s =
     (let res = \<lparr>Value = None, Variant = [], Reason = []\<rparr>;
          ((result, variant, reason, err), e) =
             ResolveObjectValue ev (FlagKey req) (Context req) (Eval s);
          s = s\<lparr>Eval := e\<rparr>
      in case err of
           Some err \<Rightarrow>
             (let (st, s) = HandleEvaluationError M anyNew err reason s in ((res, st), s))
         | None \<Rightarrow>
             (case newStruct result of
                Inl err \<Rightarrow>
                  (let (st, s) = HandleEvaluationError M anyNew err reason s in ((res, st), s))
              | Inr val \<Rightarrow>
                  ((res\<lparr>Reason := reason, Value := Some val, Variant := variant\<rparr>, None), s)))"

subsection \<open>\<open>Serve\<close>\<close>

record GRPCServiceConfiguration =
  Port :: "32 word"
  ServerKeyPath :: string
  ServerCertPath :: string
  ServerSocketPath :: string

text \<open>\<open>fmt.Sprintf("%d", n)\<close>: the decimal digits, with a minus sign below zero.\<close>

fun show_nat :: "nat \<Rightarrow> string" where
  "show_nat n =
     (if n < 10 then [''0123456789'' ! n]
      else show_nat (n div 10) @ [''0123456789'' ! (n mod 10)])"

declare show_nat.simps [simp del]

definition show_int :: "int \<Rightarrow> string" where
  "show_int i = (if i < 0 then ''-'' @ show_nat (nat (- i)) else show_nat (nat i))"

text \<open>
  What a decimal numeral is, said without \<open>show_int\<close>: \<open>numeral_nat ds n\<close> holds when
  \<open>ds\<close> is a non-empty string of digits, without a leading zero unless it is the string
  \<open>0\<close>, whose value read in base ten is \<open>n\<close>; a negative integer is a minus sign
  before the numeral of its absolute value.
\<close>

definition digit_val :: "char \<Rightarrow> nat" where
  "digit_val ch = of_char ch - 48"

definition read_nat :: "string \<Rightarrow> nat" where
  "read_nat ds = foldl (\<lambda>a ch. 10 * a + digit_val ch) 0 ds"

definition numeral_nat :: "string \<Rightarrow> nat \<Rightarrow> bool" where
  "numeral_nat ds n \<longleftrightarrow>
     ds \<noteq> [] \<and> set ds \<subseteq> set ''0123456789'' \<and> (hd ds = CHR ''0'' \<longrightarrow> ds = ''0'')
     \<and> read_nat ds = n"

definition numeral_int :: "string \<Rightarrow> int \<Rightarrow> bool" where
  "numeral_int s i \<longleftrightarrow>
     (if i < 0 then s \<noteq> [] \<and> hd s = CHR ''-'' \<and> numeral_nat (tl s) (nat (- i))
      else numeral_nat s (nat i))"

text \<open>
  What \<open>Serve\<close> asks of its surroundings. \<open>loadTLSConfig\<close> is a function of the package
  defined in another file; \<open>net_Listen\<close> is \<open>net.Listen\<close>. \<open>'t\<close> is the type of TLS
  configurations and \<open>'l\<close> the type of listeners.

  \<open>Serve\<close> starts the accept loop \<open>grpcServer.Serve(lis)\<close> in an \<open>errgroup\<close> and then
  receives from \<open>gCtx.Done()\<close>. That channel is closed when the caller's context is
  cancelled, or when the function given to \<open>g.Go\<close> returns a non-nil error, whichever
  comes first. \<open>gCtx_Done\<close> says which of the two closes it, or \<open>None\<close> when neither
  ever happens and the receive blocks for ever.

  The assignment \<open>s.Eval = eval\<close> at the start of \<open>Serve\<close> is what makes the handlers
  use the evaluator given to \<open>Serve\<close>; in the model every handler takes the evaluator as
  an argument.
\<close>

datatype wake = CtxCancelled | AcceptLoopFailed error

record ('t, 'l) host =
  loadTLSConfig :: "string \<Rightarrow> string \<Rightarrow> error + 't"
  net_Listen :: "string \<Rightarrow> string \<Rightarrow> error + 'l"
  gCtx_Done :: "wake option"

text \<open>
  The calls \<open>Serve\<close> makes, in order. \<open>NewServer\<close> carries the server options:
  empty, or the one TLS credential.
\<close>

datatype ('t, 'l) action =
    LoadTLSConfig string string
  | NewServer "'t list"
  | RegisterServiceServer
  | Listen string string
  | GoServe 'l
  | GracefulStop

text \<open>
  \<open>Serve\<close> returns the calls made and the outcome: \<open>None\<close> when it never returns,
  \<open>Some None\<close> when it returns \<open>nil\<close>, \<open>Some (Some e)\<close> when it returns the error \<open>e\<close>.
\<close>

definition Serve ::
  "('t, 'l) host \<Rightarrow> GRPCServiceConfiguration \<Rightarrow> ('t, 'l) action list \<times> error option option" where
  "Serve H c =
     (case (if ServerCertPath c \<noteq> [] \<and> ServerKeyPath c \<noteq> [] then
              (case loadTLSConfig H (ServerCertPath c) (ServerKeyPath c) of
                 Inl err \<Rightarrow> Inl err
               | Inr config \<Rightarrow>
                   Inr ([LoadTLSConfig (ServerCertPath c) (ServerKeyPath c)], [config]))
            else Inr ([], []))
      of
        Inl err \<Rightarrow> ([LoadTLSConfig (ServerCertPath c) (ServerKeyPath c)], Some (Some err))
      | Inr (tr, serverOpts) \<Rightarrow>
          (let tr = tr @ [NewServer serverOpts, RegisterServiceServer];
               (network, address) =
                  (if ServerSocketPath c \<noteq> [] then (''unix'', ServerSocketPath c)
                   else (''tcp'', '':'' @ show_int (sint (Port c))));
               tr = tr @ [Listen network address]
           in case net_Listen H network address of
                Inl err \<Rightarrow> (tr, Some (Some err))
              | Inr lis \<Rightarrow>
                  (case gCtx_Done H of
                     None \<Rightarrow> (tr @ [GoServe lis], None)
                   | Some w \<Rightarrow> (tr @ [GoServe lis, GracefulStop], Some None))))"

subsection \<open>Observations and concrete instances\<close>

text \<open>The \<open>net.Listen\<close> calls of a trace of \<open>Serve\<close>, as pairs of network and address.\<close>

fun listen_calls :: "('t, 'l) action list \<Rightarrow> (string \<times> string) list" where
  "listen_calls [] = []"
| "listen_calls (Listen network address # tr) = (network, address) # listen_calls tr"
| "listen_calls (a # tr) = listen_calls tr"

text \<open>
  An evaluator that behaves as \<open>ev\<close> and also records every call made to it: the method,
  the flag key and the context it was given.
\<close>

datatype 'c call = Call string string "'c option"

definition recording ::
  "('s, 'c, 'o) IEvaluator \<Rightarrow> ('s \<times> 'c call list, 'c, 'o) IEvaluator" where
  "recording ev =
     \<lparr>ResolveBooleanValue = (\<lambda>k c (st, calls).
        (fst (ResolveBooleanValue ev k c st),
         (snd (ResolveBooleanValue ev k c st), calls @ [Call ''ResolveBooleanValue'' k c]))),
      ResolveStringValue = (\<lambda>k c (st, calls).
        (fst (ResolveStringValue ev k c st),
         (snd (ResolveStringValue ev k c st), calls @ [Call ''ResolveStringValue'' k c]))),
      ResolveIntValue = (\<lambda>k c (st, calls).
        (fst (ResolveIntValue ev k c st),
         (snd (ResolveIntValue ev k c st), calls @ [Call ''ResolveIntValue'' k c]))),
      ResolveFloatValue = (\<lambda>k c (st, calls).
        (fst (ResolveFloatValue ev k c st),
         (snd (ResolveFloatValue ev k c st), calls @ [Call ''ResolveFloatValue'' k c]))),
      ResolveObjectValue = (\<lambda>k c (st, calls).
        (fst (ResolveObjectValue ev k c st),
         (snd (ResolveObjectValue ev k c st), calls @ [Call ''ResolveObjectValue'' k c])))\<rparr>"

text \<open>
  Data for the concrete instances of the theorems below. The two domain codes are
  distinct strings. The protobuf runtime \<open>pack_utf8\<close> refuses a detail message with the
  byte \<open>0xFF\<close> in a string field (no UTF-8 text contains that byte, and a proto3 string
  field must be UTF-8) and packs every other one.
\<close>

definition flagd_model :: model where
  "flagd_model = \<lparr>FlagNotFoundErrorCode = ''FLAG_NOT_FOUND'',
                   TypeMismatchErrorCode = ''TYPE_MISMATCH''\<rparr>"

definition pack_utf8 :: "ErrorResponse \<Rightarrow> error option" where
  "pack_utf8 d =
     (if CHR 0xFF \<in> set (ErrorCode d) \<or> CHR 0xFF \<in> set (ErrReason d)
      then Some ''proto: field schema.v1.ErrorResponse contains invalid UTF-8''
      else None)"

definition svc0 :: "nat GRPCService" where
  "svc0 = \<lparr>Eval = 0, Logger = []\<rparr>"

definition req0 :: "nat Request" where
  "req0 = \<lparr>FlagKey = ''myFlag'', Context = Some 7\<rparr>"

text \<open>
  An evaluator that answers every call with the same variant, reason and error, next to
  a non-zero value, and counts its calls.
\<close>

definition fixed_eval ::
  "string \<Rightarrow> string \<Rightarrow> error option \<Rightarrow> (nat, nat, nat list) IEvaluator" where
  "fixed_eval variant reason err =
     \<lparr>ResolveBooleanValue = (\<lambda>k c n. ((True, variant, reason, err), Suc n)),
      ResolveStringValue = (\<lambda>k c n. ((''red'', variant, reason, err), Suc n)),
      ResolveIntValue = (\<lambda>k c n. ((42, variant, reason, err), Suc n)),
      ResolveFloatValue = (\<lambda>k c n. ((0x3FF8000000000000, variant, reason, err), Suc n)),
      ResolveObjectValue = (\<lambda>k c n. (([1, 2], variant, reason, err), Suc n))\<rparr>"

text \<open>A conversion to a protobuf \<open>Struct\<close> that fails, as on a map holding a channel.\<close>

definition struct_fails :: "nat list \<Rightarrow> error + nat" where
  "struct_fails m = Inl ''proto: invalid type: chan int''"

definition struct_ok :: "nat list \<Rightarrow> error + nat" where
  "struct_ok m = Inr (length m)"

text \<open>
  Surroundings of \<open>Serve\<close> in which loading the TLS files and binding both succeed,
  surroundings in which the TLS files cannot be read, and five configurations: TCP only,
  a socket path next to a port, a certificate without key, TCP with certificate and key,
  a socket path with certificate and key.
\<close>

definition host0 :: "wake option \<Rightarrow> (string \<times> string, string \<times> string) host" where
  "host0 w =
     \<lparr>loadTLSConfig = (\<lambda>cert key. Inr (cert, key)),
      net_Listen = (\<lambda>network address. Inr (network, address)),
      gCtx_Done = w\<rparr>"

definition cfg_tcp :: GRPCServiceConfiguration where
  "cfg_tcp = \<lparr>Port = 8013, ServerKeyPath = [], ServerCertPath = [], ServerSocketPath = []\<rparr>"

definition cfg_unix :: GRPCServiceConfiguration where
  "cfg_unix = \<lparr>Port = 8013, ServerKeyPath = [], ServerCertPath = [],
               ServerSocketPath = ''/tmp/flagd.sock''\<rparr>"

definition cfg_cert_only :: GRPCServiceConfiguration where
  "cfg_cert_only = \<lparr>Port = 8013, ServerKeyPath = [], ServerCertPath = ''cert.pem'',
                    ServerSocketPath = []\<rparr>"

definition host_bad_tls :: "wake option \<Rightarrow> (string \<times> string, string \<times> string) host" where
  "host_bad_tls w =
     \<lparr>loadTLSConfig = (\<lambda>cert key. Inl ''open cert.pem: no such file or directory''),
      net_Listen = (\<lambda>network address. Inr (network, address)),
      gCtx_Done = w\<rparr>"

definition cfg_tls :: GRPCServiceConfiguration where
  "cfg_tls = \<lparr>Port = 8013, ServerKeyPath = ''key.pem'', ServerCertPath = ''cert.pem'',
              ServerSocketPath = []\<rparr>"

definition cfg_unix_tls :: GRPCServiceConfiguration where
  "cfg_unix_tls = \<lparr>Port = 8013, ServerKeyPath = ''key.pem'', ServerCertPath = ''cert.pem'',
                   ServerSocketPath = ''/tmp/flagd.sock''\<rparr>"

section \<open>The error classifier\<close>

text \<open>What \<open>HandleEvaluationError\<close> returns, and that it leaves the evaluator alone.\<close>

lemma HandleEvaluationError_fst:
  "fst (HandleEvaluationError M anyNew err reason s) =
     Some \<lparr>Code = (if err = FlagNotFoundErrorCode M then NotFound
                    else if err = TypeMismatchErrorCode M then InvalidArgument
                    else Internal),
           Message = err,
           Details = (case anyNew \<lparr>ErrorCode = err, ErrReason = ''ERROR''\<rparr> of
                        Some e \<Rightarrow> []
                      | None \<Rightarrow> [\<lparr>ErrorCode = err, ErrReason = ''ERROR''\<rparr>])\<rparr>"
  by (simp add: HandleEvaluationError_def WithDetails_def Err_def status_New_def Let_def
           split: option.splits)

lemma HandleEvaluationError_Eval:
  "Eval (snd (HandleEvaluationError M anyNew err reason s)) = Eval s"
  by (simp add: HandleEvaluationError_def WithDetails_def Err_def status_New_def Let_def
           split: option.splits)

lemma pack_utf8_ascii [simp]:
  "pack_utf8 \<lparr>ErrorCode = ''FLAG_NOT_FOUND'', ErrReason = ''ERROR''\<rparr> = None"
  "pack_utf8 \<lparr>ErrorCode = ''TYPE_MISMATCH'', ErrReason = ''ERROR''\<rparr> = None"
  "pack_utf8 \<lparr>ErrorCode = ''PARSE_ERROR'', ErrReason = ''ERROR''\<rparr> = None"
  "pack_utf8 \<lparr>ErrorCode = ''proto: invalid type: chan int'', ErrReason = ''ERROR''\<rparr> = None"
  "pack_utf8 \<lparr>ErrorCode = [CHR 0xFF], ErrReason = ''ERROR''\<rparr> \<noteq> None"
  by (simp_all add: pack_utf8_def)

text \<open>
  C1. The status code chosen by the classifier is not-found when the error's message is
  the flag-not-found domain code, invalid-argument when it is the type-mismatch domain
  code, and internal for every other message. The two domain codes are distinct constants.
\<close>

theorem C1_status_code:
  assumes "FlagNotFoundErrorCode M \<noteq> TypeMismatchErrorCode M"
  shows "(err = FlagNotFoundErrorCode M \<longrightarrow>
            map_option Code (fst (HandleEvaluationError M anyNew err reason s)) = Some NotFound)
       \<and> (err = TypeMismatchErrorCode M \<longrightarrow>
            map_option Code (fst (HandleEvaluationError M anyNew err reason s)) = Some InvalidArgument)
       \<and> (err \<noteq> FlagNotFoundErrorCode M \<and> err \<noteq> TypeMismatchErrorCode M \<longrightarrow>
            map_option Code (fst (HandleEvaluationError M anyNew err reason s)) = Some Internal)"
  using assms by (simp add: HandleEvaluationError_fst)

text \<open>The three cases of C1 at the messages of three evaluator errors.\<close>

theorem C1_status_code_witness:
  "FlagNotFoundErrorCode flagd_model \<noteq> TypeMismatchErrorCode flagd_model
   \<and> map_option Code (fst (HandleEvaluationError flagd_model pack_utf8 ''FLAG_NOT_FOUND'' ''DEFAULT'' svc0))
       = Some NotFound
   \<and> map_option Code (fst (HandleEvaluationError flagd_model pack_utf8 ''TYPE_MISMATCH'' ''DEFAULT'' svc0))
       = Some InvalidArgument
   \<and> map_option Code (fst (HandleEvaluationError flagd_model pack_utf8 ''PARSE_ERROR'' ''DEFAULT'' svc0))
       = Some Internal"
proof -
  have d: "FlagNotFoundErrorCode flagd_model \<noteq> TypeMismatchErrorCode flagd_model"
    by (simp add: flagd_model_def)
  show ?thesis
    using d
      C1_status_code [OF d, of "''FLAG_NOT_FOUND''" pack_utf8 "''DEFAULT''" svc0]
      C1_status_code [OF d, of "''TYPE_MISMATCH''" pack_utf8 "''DEFAULT''" svc0]
      C1_status_code [OF d, of "''PARSE_ERROR''" pack_utf8 "''DEFAULT''" svc0]
    by (simp add: flagd_model_def)
qed

text \<open>
  C2 as stated, a detail payload on every returned status, fails. For an error whose
  message is the single byte \<open>0xFF\<close> the detail message cannot be packed;
  \<open>HandleEvaluationError\<close> then logs the failure and returns the bare status, which has
  no details.
\<close>

theorem C2_counterexample:
  "fst (HandleEvaluationError flagd_model pack_utf8 [CHR 0xFF] ''DEFAULT'' svc0) =
     Some \<lparr>Code = Internal, Message = [CHR 0xFF], Details = []\<rparr>"
  by (simp add: HandleEvaluationError_def WithDetails_def Err_def status_New_def
        flagd_model_def pack_utf8_def)

text \<open>
  C2, amended. Whenever the detail message can be packed, the returned status carries
  exactly one detail payload, whose \<open>errorCode\<close> is the error's message and whose
  \<open>reason\<close> is the fixed string \<open>ERROR\<close>, whatever the \<open>reason\<close> argument is.
\<close>

theorem C2_details_when_attached:
  assumes "anyNew \<lparr>ErrorCode = err, ErrReason = ''ERROR''\<rparr> = None"
  shows "map_option Details (fst (HandleEvaluationError M anyNew err reason s)) =
           Some [\<lparr>ErrorCode = err, ErrReason = ''ERROR''\<rparr>]"
  using assms by (simp add: HandleEvaluationError_fst)

text \<open>An instance of the amended C2 with a reason argument other than \<open>ERROR\<close>.\<close>

theorem C2_details_when_attached_witness:
  "pack_utf8 \<lparr>ErrorCode = ''FLAG_NOT_FOUND'', ErrReason = ''ERROR''\<rparr> = None
   \<and> map_option Details
        (fst (HandleEvaluationError flagd_model pack_utf8 ''FLAG_NOT_FOUND'' ''TARGETING_MATCH'' svc0)) =
       Some [\<lparr>ErrorCode = ''FLAG_NOT_FOUND'', ErrReason = ''ERROR''\<rparr>]"
proof -
  have h: "pack_utf8 \<lparr>ErrorCode = ''FLAG_NOT_FOUND'', ErrReason = ''ERROR''\<rparr> = None"
    by simp
  show ?thesis
    using h C2_details_when_attached
        [of pack_utf8 "''FLAG_NOT_FOUND''" flagd_model "''TARGETING_MATCH''" svc0]
    by simp
qed

text \<open>
  C10. For every evaluator error, \<open>HandleEvaluationError\<close> returns a non-nil error whose
  status message is the error's message and whose code is the classified one, whether or
  not the detail payload could be attached; when attaching fails, the result is the bare
  status with that code and that message.
\<close>

theorem C10_message_and_code:
  "map_option (\<lambda>st. (Code st, Message st)) (fst (HandleEvaluationError M anyNew err reason s)) =
     Some (if err = FlagNotFoundErrorCode M then NotFound
           else if err = TypeMismatchErrorCode M then InvalidArgument
           else Internal, err)
   \<and> (anyNew \<lparr>ErrorCode = err, ErrReason = ''ERROR''\<rparr> \<noteq> None \<longrightarrow>
        fst (HandleEvaluationError M anyNew err reason s) =
          Some (status_New (if err = FlagNotFoundErrorCode M then NotFound
                            else if err = TypeMismatchErrorCode M then InvalidArgument
                            else Internal) err))"
proof (intro conjI impI)
  show "map_option (\<lambda>st. (Code st, Message st))
          (fst (HandleEvaluationError M anyNew err reason s)) =
        Some (if err = FlagNotFoundErrorCode M then NotFound
              else if err = TypeMismatchErrorCode M then InvalidArgument
              else Internal, err)"
    by (simp add: HandleEvaluationError_fst)
next
  assume "anyNew \<lparr>ErrorCode = err, ErrReason = ''ERROR''\<rparr> \<noteq> None"
  then obtain e where "anyNew \<lparr>ErrorCode = err, ErrReason = ''ERROR''\<rparr> = Some e"
    by blast
  then show "fst (HandleEvaluationError M anyNew err reason s) =
          Some (status_New (if err = FlagNotFoundErrorCode M then NotFound
                            else if err = TypeMismatchErrorCode M then InvalidArgument
                            else Internal) err)"
    by (simp add: HandleEvaluationError_fst status_New_def)
qed

text \<open>
  C10 at an error whose detail message cannot be packed, and at a type-mismatch error
  whose detail message can.
\<close>

theorem C10_message_and_code_witness:
  "pack_utf8 \<lparr>ErrorCode = [CHR 0xFF], ErrReason = ''ERROR''\<rparr> \<noteq> None
   \<and> fst (HandleEvaluationError flagd_model pack_utf8 [CHR 0xFF] ''DEFAULT'' svc0) =
       Some (status_New Internal [CHR 0xFF])
   \<and> map_option (\<lambda>st. (Code st, Message st))
        (fst (HandleEvaluationError flagd_model pack_utf8 ''TYPE_MISMATCH'' ''DEFAULT'' svc0)) =
       Some (InvalidArgument, ''TYPE_MISMATCH'')"
proof -
  have h: "pack_utf8 \<lparr>ErrorCode = [CHR 0xFF], ErrReason = ''ERROR''\<rparr> \<noteq> None"
    by simp
  show ?thesis
    using h
      C10_message_and_code [of flagd_model pack_utf8 "[CHR 0xFF]" "''DEFAULT''" svc0]
      C10_message_and_code [of flagd_model pack_utf8 "''TYPE_MISMATCH''" "''DEFAULT''" svc0]
    by (simp add: flagd_model_def)
qed

section \<open>The resolve handlers\<close>

text \<open>
  C6. Each of the four primitive handlers, given an evaluator that answers the call with
  a value \<open>v\<close>, the variant \<open>variantA\<close>, the reason \<open>STATIC\<close> and no error, returns the
  response with that value, that variant and that reason, and no error.
\<close>

theorem C6_primitive_success:
  "(ResolveBooleanValue ev (FlagKey req) (Context req) (Eval s) =
       ((vb, ''variantA'', ''STATIC'', None), e) \<longrightarrow>
     fst (ResolveBoolean M anyNew ev req s) =
       (\<lparr>Value = vb, Variant = ''variantA'', Reason = ''STATIC''\<rparr>, None))
   \<and> (ResolveStringValue ev (FlagKey req) (Context req) (Eval s) =
       ((vs, ''variantA'', ''STATIC'', None), e) \<longrightarrow>
     fst (ResolveString M anyNew ev req s) =
       (\<lparr>Value = vs, Variant = ''variantA'', Reason = ''STATIC''\<rparr>, None))
   \<and> (ResolveIntValue ev (FlagKey req) (Context req) (Eval s) =
       ((vi, ''variantA'', ''STATIC'', None), e) \<longrightarrow>
     fst (ResolveInt M anyNew ev req s) =
       (\<lparr>Value = vi, Variant = ''variantA'', Reason = ''STATIC''\<rparr>, None))
   \<and> (ResolveFloatValue ev (FlagKey req) (Context req) (Eval s) =
       ((vf, ''variantA'', ''STATIC'', None), e) \<longrightarrow>
     fst (ResolveFloat M anyNew ev req s) =
       (\<lparr>Value = vf, Variant = ''variantA'', Reason = ''STATIC''\<rparr>, None))"
proof (intro conjI impI)
  assume "ResolveBooleanValue ev (FlagKey req) (Context req) (Eval s) =
            ((vb, ''variantA'', ''STATIC'', None), e)"
  then show "fst (ResolveBoolean M anyNew ev req s) =
               (\<lparr>Value = vb, Variant = ''variantA'', Reason = ''STATIC''\<rparr>, None)"
    by (simp add: ResolveBoolean_def)
next
  assume "ResolveStringValue ev (FlagKey req) (Context req) (Eval s) =
            ((vs, ''variantA'', ''STATIC'', None), e)"
  then show "fst (ResolveString M anyNew ev req s) =
               (\<lparr>Value = vs, Variant = ''variantA'', Reason = ''STATIC''\<rparr>, None)"
    by (simp add: ResolveString_def)
next
  assume "ResolveIntValue ev (FlagKey req) (Context req) (Eval s) =
            ((vi, ''variantA'', ''STATIC'', None), e)"
  then show "fst (ResolveInt M anyNew ev req s) =
               (\<lparr>Value = vi, Variant = ''variantA'', Reason = ''STATIC''\<rparr>, None)"
    by (simp add: ResolveInt_def)
next
  assume "ResolveFloatValue ev (FlagKey req) (Context req) (Eval s) =
            ((vf, ''variantA'', ''STATIC'', None), e)"
  then show "fst (ResolveFloat M anyNew ev req s) =
               (\<lparr>Value = vf, Variant = ''variantA'', Reason = ''STATIC''\<rparr>, None)"
    by (simp add: ResolveFloat_def)
qed

text \<open>
  C6 at an evaluator answering \<open>true\<close>, \<open>red\<close>, \<open>42\<close> and \<open>1.5\<close> (as its 64 bits).
\<close>

theorem C6_primitive_success_witness:
  "ResolveBooleanValue (fixed_eval ''variantA'' ''STATIC'' None) (FlagKey req0) (Context req0) (Eval svc0) =
       ((True, ''variantA'', ''STATIC'', None), 1)
   \<and> ResolveStringValue (fixed_eval ''variantA'' ''STATIC'' None) (FlagKey req0) (Context req0) (Eval svc0) =
       ((''red'', ''variantA'', ''STATIC'', None), 1)
   \<and> ResolveIntValue (fixed_eval ''variantA'' ''STATIC'' None) (FlagKey req0) (Context req0) (Eval svc0) =
       ((42, ''variantA'', ''STATIC'', None), 1)
   \<and> ResolveFloatValue (fixed_eval ''variantA'' ''STATIC'' None) (FlagKey req0) (Context req0) (Eval svc0) =
       ((0x3FF8000000000000, ''variantA'', ''STATIC'', None), 1)
   \<and> fst (ResolveBoolean flagd_model pack_utf8 (fixed_eval ''variantA'' ''STATIC'' None) req0 svc0) =
       (\<lparr>Value = True, Variant = ''variantA'', Reason = ''STATIC''\<rparr>, None)
   \<and> fst (ResolveString flagd_model pack_utf8 (fixed_eval ''variantA'' ''STATIC'' None) req0 svc0) =
       (\<lparr>Value = ''red'', Variant = ''variantA'', Reason = ''STATIC''\<rparr>, None)
   \<and> fst (ResolveInt flagd_model pack_utf8 (fixed_eval ''variantA'' ''STATIC'' None) req0 svc0) =
       (\<lparr>Value = 42, Variant = ''variantA'', Reason = ''STATIC''\<rparr>, None)
   \<and> fst (ResolveFloat flagd_model pack_utf8 (fixed_eval ''variantA'' ''STATIC'' None) req0 svc0) =
       (\<lparr>Value = 0x3FF8000000000000, Variant = ''variantA'', Reason = ''STATIC''\<rparr>, None)"
proof -
  have h: "ResolveBooleanValue (fixed_eval ''variantA'' ''STATIC'' None) (FlagKey req0) (Context req0) (Eval svc0) =
       ((True, ''variantA'', ''STATIC'', None), 1)"
     "ResolveStringValue (fixed_eval ''variantA'' ''STATIC'' None) (FlagKey req0) (Context req0) (Eval svc0) =
       ((''red'', ''variantA'', ''STATIC'', None), 1)"
     "ResolveIntValue (fixed_eval ''variantA'' ''STATIC'' None) (FlagKey req0) (Context req0) (Eval svc0) =
       ((42, ''variantA'', ''STATIC'', None), 1)"
     "ResolveFloatValue (fixed_eval ''variantA'' ''STATIC'' None) (FlagKey req0) (Context req0) (Eval svc0) =
       ((0x3FF8000000000000, ''variantA'', ''STATIC'', None), 1)"
    by (simp_all add: fixed_eval_def svc0_def)
  show ?thesis
    using h C6_primitive_success
      [of "fixed_eval ''variantA'' ''STATIC'' None" req0 svc0 True 1 flagd_model pack_utf8
          "''red''" 42 "0x3FF8000000000000"]
    by simp
qed

text \<open>
  C9. In each of the five handlers, when the evaluator returns an error, the response
  returned next to the (non-nil) error status is the zero response: its value and its
  variant are unset, whatever value and variant the evaluator returned with the error.
\<close>

theorem C9_error_response_zero:
  "(ResolveBooleanValue ev (FlagKey req) (Context req) (Eval s) =
       ((vb, variant, reason, Some err), e) \<longrightarrow>
     fst (fst (ResolveBoolean M anyNew ev req s)) = \<lparr>Value = False, Variant = [], Reason = []\<rparr>
     \<and> snd (fst (ResolveBoolean M anyNew ev req s)) \<noteq> None)
   \<and> (ResolveStringValue ev (FlagKey req) (Context req) (Eval s) =
       ((vs, variant, reason, Some err), e) \<longrightarrow>
     fst (fst (ResolveString M anyNew ev req s)) = \<lparr>Value = [], Variant = [], Reason = []\<rparr>
     \<and> snd (fst (ResolveString M anyNew ev req s)) \<noteq> None)
   \<and> (ResolveIntValue ev (FlagKey req) (Context req) (Eval s) =
       ((vi, variant, reason, Some err), e) \<longrightarrow>
     fst (fst (ResolveInt M anyNew ev req s)) = \<lparr>Value = 0, Variant = [], Reason = []\<rparr>
     \<and> snd (fst (ResolveInt M anyNew ev req s)) \<noteq> None)
   \<and> (ResolveFloatValue ev (FlagKey req) (Context req) (Eval s) =
       ((vf, variant, reason, Some err), e) \<longrightarrow>
     fst (fst (ResolveFloat M anyNew ev req s)) = \<lparr>Value = 0, Variant = [], Reason = []\<rparr>
     \<and> snd (fst (ResolveFloat M anyNew ev req s)) \<noteq> None)
   \<and> (ResolveObjectValue ev (FlagKey req) (Context req) (Eval s) =
       ((vo, variant, reason, Some err), e) \<longrightarrow>
     fst (fst (ResolveObject M anyNew newStruct ev req s)) = \<lparr>Value = None, Variant = [], Reason = []\<rparr>
     \<and> snd (fst (ResolveObject M anyNew newStruct ev req s)) \<noteq> None)"
  by (simp add: ResolveBoolean_def ResolveString_def ResolveInt_def ResolveFloat_def
        ResolveObject_def split_beta HandleEvaluationError_fst)

text \<open>
  C9 at an evaluator that returns a non-zero value and the variant \<open>variantA\<close> together
  with its error.
\<close>

theorem C9_error_response_zero_witness:
  "ResolveBooleanValue (fixed_eval ''variantA'' ''ERROR'' (Some ''FLAG_NOT_FOUND'')) (FlagKey req0) (Context req0) (Eval svc0) =
       ((True, ''variantA'', ''ERROR'', Some ''FLAG_NOT_FOUND''), 1)
   \<and> ResolveStringValue (fixed_eval ''variantA'' ''ERROR'' (Some ''FLAG_NOT_FOUND'')) (FlagKey req0) (Context req0) (Eval svc0) =
       ((''red'', ''variantA'', ''ERROR'', Some ''FLAG_NOT_FOUND''), 1)
   \<and> ResolveIntValue (fixed_eval ''variantA'' ''ERROR'' (Some ''FLAG_NOT_FOUND'')) (FlagKey req0) (Context req0) (Eval svc0) =
       ((42, ''variantA'', ''ERROR'', Some ''FLAG_NOT_FOUND''), 1)
   \<and> ResolveFloatValue (fixed_eval ''variantA'' ''ERROR'' (Some ''FLAG_NOT_FOUND'')) (FlagKey req0) (Context req0) (Eval svc0) =
       ((0x3FF8000000000000, ''variantA'', ''ERROR'', Some ''FLAG_NOT_FOUND''), 1)
   \<and> ResolveObjectValue (fixed_eval ''variantA'' ''ERROR'' (Some ''FLAG_NOT_FOUND'')) (FlagKey req0) (Context req0) (Eval svc0) =
       (([1, 2], ''variantA'', ''ERROR'', Some ''FLAG_NOT_FOUND''), 1)
   \<and> fst (fst (ResolveBoolean flagd_model pack_utf8 (fixed_eval ''variantA'' ''ERROR'' (Some ''FLAG_NOT_FOUND'')) req0 svc0)) =
       \<lparr>Value = False, Variant = [], Reason = []\<rparr>
   \<and> fst (fst (ResolveString flagd_model pack_utf8 (fixed_eval ''variantA'' ''ERROR'' (Some ''FLAG_NOT_FOUND'')) req0 svc0)) =
       \<lparr>Value = [], Variant = [], Reason = []\<rparr>
   \<and> fst (fst (ResolveInt flagd_model pack_utf8 (fixed_eval ''variantA'' ''ERROR'' (Some ''FLAG_NOT_FOUND'')) req0 svc0)) =
       \<lparr>Value = 0, Variant = [], Reason = []\<rparr>
   \<and> fst (fst (ResolveFloat flagd_model pack_utf8 (fixed_eval ''variantA'' ''ERROR'' (Some ''FLAG_NOT_FOUND'')) req0 svc0)) =
       \<lparr>Value = 0, Variant = [], Reason = []\<rparr>
   \<and> fst (fst (ResolveObject flagd_model pack_utf8 struct_ok (fixed_eval ''variantA'' ''ERROR'' (Some ''FLAG_NOT_FOUND'')) req0 svc0)) =
       \<lparr>Value = None, Variant = [], Reason = []\<rparr>"
proof -
  have h: "ResolveBooleanValue (fixed_eval ''variantA'' ''ERROR'' (Some ''FLAG_NOT_FOUND'')) (FlagKey req0) (Context req0) (Eval svc0) =
       ((True, ''variantA'', ''ERROR'', Some ''FLAG_NOT_FOUND''), 1)"
    "ResolveStringValue (fixed_eval ''variantA'' ''ERROR'' (Some ''FLAG_NOT_FOUND'')) (FlagKey req0) (Context req0) (Eval svc0) =
       ((''red'', ''variantA'', ''ERROR'', Some ''FLAG_NOT_FOUND''), 1)"
    "ResolveIntValue (fixed_eval ''variantA'' ''ERROR'' (Some ''FLAG_NOT_FOUND'')) (FlagKey req0) (Context req0) (Eval svc0) =
       ((42, ''variantA'', ''ERROR'', Some ''FLAG_NOT_FOUND''), 1)"
    "ResolveFloatValue (fixed_eval ''variantA'' ''ERROR'' (Some ''FLAG_NOT_FOUND'')) (FlagKey req0) (Context req0) (Eval svc0) =
       ((0x3FF8000000000000, ''variantA'', ''ERROR'', Some ''FLAG_NOT_FOUND''), 1)"
    "ResolveObjectValue (fixed_eval ''variantA'' ''ERROR'' (Some ''FLAG_NOT_FOUND'')) (FlagKey req0) (Context req0) (Eval svc0) =
       (([1, 2], ''variantA'', ''ERROR'', Some ''FLAG_NOT_FOUND''), 1)"
    by (simp_all add: fixed_eval_def svc0_def)
  show ?thesis
    using h C9_error_response_zero
      [of "fixed_eval ''variantA'' ''ERROR'' (Some ''FLAG_NOT_FOUND'')" req0 svc0 True
          "''variantA''" "''ERROR''" "''FLAG_NOT_FOUND''" 1 flagd_model pack_utf8
          "''red''" 42 "0x3FF8000000000000" "[1, 2]" struct_ok]
    by simp
qed

text \<open>
  C8. In \<open>ResolveObject\<close>, when the evaluator succeeds and the conversion of its map
  to a protobuf \<open>Struct\<close> fails with an error, the call returns the zero response and
  the status that \<open>HandleEvaluationError\<close> builds from the conversion error; that status
  is a non-nil error carrying the conversion error's message.
\<close>

theorem C8_conversion_failure:
  assumes "ResolveObjectValue ev (FlagKey req) (Context req) (Eval s) =
             ((result, variant, reason, None), e)"
      and "newStruct result = Inl err"
  shows "fst (ResolveObject M anyNew newStruct ev req s) =
           (\<lparr>Value = None, Variant = [], Reason = []\<rparr>,
            fst (HandleEvaluationError M anyNew err reason (s\<lparr>Eval := e\<rparr>)))
         \<and> map_option Message (snd (fst (ResolveObject M anyNew newStruct ev req s))) = Some err"
  using assms
  by (simp add: ResolveObject_def split_beta HandleEvaluationError_fst)

text \<open>
  C8 at a map that cannot be converted: the status is internal.
\<close>

theorem C8_conversion_failure_witness:
  "ResolveObjectValue (fixed_eval ''variantA'' ''STATIC'' None) (FlagKey req0) (Context req0) (Eval svc0) =
       (([1, 2], ''variantA'', ''STATIC'', None), 1)
   \<and> struct_fails [1, 2] = Inl ''proto: invalid type: chan int''
   \<and> fst (ResolveObject flagd_model pack_utf8 struct_fails (fixed_eval ''variantA'' ''STATIC'' None) req0 svc0) =
       (\<lparr>Value = None, Variant = [], Reason = []\<rparr>,
        Some \<lparr>Code = Internal, Message = ''proto: invalid type: chan int'',
              Details = [\<lparr>ErrorCode = ''proto: invalid type: chan int'', ErrReason = ''ERROR''\<rparr>]\<rparr>)"
proof -
  have h1: "ResolveObjectValue (fixed_eval ''variantA'' ''STATIC'' None) (FlagKey req0) (Context req0) (Eval svc0) =
       (([1, 2], ''variantA'', ''STATIC'', None), 1)"
    by (simp add: fixed_eval_def svc0_def)
  have h2: "struct_fails [1, 2] = Inl ''proto: invalid type: chan int''"
    by (simp add: struct_fails_def)
  show ?thesis
    using h1 h2 C8_conversion_failure
        [of "fixed_eval ''variantA'' ''STATIC'' None" req0 svc0 "[1, 2]" "''variantA''" "''STATIC''" 1
            struct_fails "''proto: invalid type: chan int''" flagd_model pack_utf8]
    by (simp add: HandleEvaluationError_fst flagd_model_def pack_utf8_def)
qed

text \<open>
  C4 as stated, no evaluator call for an empty flag key, fails: the handlers do not
  inspect the key. A request with the empty key reaches the evaluator.
\<close>

theorem C4_counterexample:
  "snd (Eval (snd (ResolveBoolean flagd_model pack_utf8
                     (recording (fixed_eval ''on'' ''STATIC'' None))
                     \<lparr>FlagKey = [], Context = None\<rparr>
                     \<lparr>Eval = (0, []), Logger = []\<rparr>))) =
     [Call ''ResolveBooleanValue'' [] None]"
  by (simp add: ResolveBoolean_def recording_def fixed_eval_def)

text \<open>
  C4, amended. Each handler forwards the request's flag key and context to the
  evaluator unchanged and unchecked: whatever the key is, empty or not, the handler makes
  exactly one call of its evaluator method, with that key and that context.
\<close>

theorem C4_key_forwarded_unchecked:
  "snd (Eval (snd (ResolveBoolean M anyNew (recording ev) req s))) =
     snd (Eval s) @ [Call ''ResolveBooleanValue'' (FlagKey req) (Context req)]
   \<and> snd (Eval (snd (ResolveString M anyNew (recording ev) req s))) =
     snd (Eval s) @ [Call ''ResolveStringValue'' (FlagKey req) (Context req)]
   \<and> snd (Eval (snd (ResolveInt M anyNew (recording ev) req s))) =
     snd (Eval s) @ [Call ''ResolveIntValue'' (FlagKey req) (Context req)]
   \<and> snd (Eval (snd (ResolveFloat M anyNew (recording ev) req s))) =
     snd (Eval s) @ [Call ''ResolveFloatValue'' (FlagKey req) (Context req)]
   \<and> snd (Eval (snd (ResolveObject M anyNew newStruct (recording ev) req s))) =
     snd (Eval s) @ [Call ''ResolveObjectValue'' (FlagKey req) (Context req)]"
  by (simp add: ResolveBoolean_def ResolveString_def ResolveInt_def ResolveFloat_def
        ResolveObject_def recording_def split_beta Let_def HandleEvaluationError_Eval
        split: option.splits sum.splits)

section \<open>Decimal numerals\<close>

text \<open>
  \<open>show_int\<close> prints the decimal numeral of its argument, and no other string is one.
\<close>

lemma digit_nth: "d < 10 \<Longrightarrow> ''0123456789'' ! d \<in> set ''0123456789''"
  by (rule nth_mem) simp

lemma digit_val_nth: "d < 10 \<Longrightarrow> digit_val (''0123456789'' ! d) = d"
proof -
  assume "d < 10"
  then consider "d = 0" | "d = 1" | "d = 2" | "d = 3" | "d = 4" | "d = 5" | "d = 6"
    | "d = 7" | "d = 8" | "d = 9"
    by atomize_elim arith
  then show ?thesis
    by cases (simp_all add: digit_val_def)
qed

lemma digit_nth_zero: "d < 10 \<Longrightarrow> (''0123456789'' ! d = CHR ''0'') = (d = 0)"
proof -
  assume "d < 10"
  then consider "d = 0" | "d = 1" | "d = 2" | "d = 3" | "d = 4" | "d = 5" | "d = 6"
    | "d = 7" | "d = 8" | "d = 9"
    by atomize_elim arith
  then show ?thesis
    by cases simp_all
qed

lemma read_nat_snoc: "read_nat (ds @ [ch]) = 10 * read_nat ds + digit_val ch"
  by (simp add: read_nat_def)

lemma show_nat_nonempty: "show_nat n \<noteq> []"
  by (subst show_nat.simps) simp

lemma show_nat_digits: "set (show_nat n) \<subseteq> set ''0123456789''"
proof (induction n rule: show_nat.induct)
  case (1 n)
  show ?case
  proof (cases "n < 10")
    case True
    then show ?thesis
      using digit_nth [of n] by (subst show_nat.simps) simp
  next
    case False
    then show ?thesis
      using 1 digit_nth [of "n mod 10"] by (subst show_nat.simps) simp
  qed
qed

lemma read_nat_show_nat: "read_nat (show_nat n) = n"
proof (induction n rule: show_nat.induct)
  case (1 n)
  show ?case
  proof (cases "n < 10")
    case True
    then show ?thesis
      by (subst show_nat.simps) (simp add: read_nat_def digit_val_nth)
  next
    case False
    then have "read_nat (show_nat (n div 10)) = n div 10"
      using 1 by simp
    with False show ?thesis
      by (subst show_nat.simps) (simp add: read_nat_snoc digit_val_nth)
  qed
qed

lemma show_nat_hd: "hd (show_nat n) = CHR ''0'' \<Longrightarrow> n = 0"
proof (induction n rule: show_nat.induct)
  case (1 n)
  show ?case
  proof (cases "n < 10")
    case True
    with 1(2) show ?thesis
      by (subst (asm) show_nat.simps) (simp add: digit_nth_zero)
  next
    case False
    with 1(2) have "hd (show_nat (n div 10)) = CHR ''0''"
      by (subst (asm) show_nat.simps) (simp add: show_nat_nonempty)
    with False 1(1) have "n div 10 = 0" by simp
    with False show ?thesis by simp
  qed
qed

lemma show_nat_zero: "show_nat 0 = ''0''"
  by (subst show_nat.simps) simp

lemma numeral_nat_show_nat: "numeral_nat (show_nat n) n"
  unfolding numeral_nat_def
  using show_nat_nonempty show_nat_digits read_nat_show_nat show_nat_hd show_nat_zero
  by metis

lemma numeral_int_show_int: "numeral_int (show_int i) i"
  by (simp add: numeral_int_def show_int_def numeral_nat_show_nat)

lemma digit_char:
  assumes "ch \<in> set ''0123456789''"
  shows "digit_val ch < 10" and "''0123456789'' ! digit_val ch = ch"
    and "(digit_val ch = 0) = (ch = CHR ''0'')"
  using assms by (auto simp add: digit_val_def)

lemma read_nat_pos:
  "set ds \<subseteq> set ''0123456789'' \<Longrightarrow> ds \<noteq> [] \<Longrightarrow> hd ds \<noteq> CHR ''0'' \<Longrightarrow> 0 < read_nat ds"
proof (induction ds rule: rev_induct)
  case Nil
  then show ?case by simp
next
  case (snoc ch ds)
  show ?case
  proof (cases "ds = []")
    case True
    with snoc.prems have "ch \<in> set ''0123456789''" and "ch \<noteq> CHR ''0''" by simp_all
    then have "digit_val ch \<noteq> 0" using digit_char(3) by blast
    with True show ?thesis by (simp add: read_nat_def)
  next
    case False
    with snoc have "0 < read_nat ds" by simp
    then show ?thesis by (simp add: read_nat_snoc)
  qed
qed

lemma numeral_nat_unique:
  "numeral_nat ds n \<Longrightarrow> ds = show_nat n"
proof (induction ds arbitrary: n rule: rev_induct)
  case Nil
  then show ?case by (simp add: numeral_nat_def)
next
  case (snoc ch ds)
  from snoc.prems have ch: "ch \<in> set ''0123456789''" and ds: "set ds \<subseteq> set ''0123456789''"
    and n: "n = 10 * read_nat ds + digit_val ch"
    and z: "hd (ds @ [ch]) = CHR ''0'' \<longrightarrow> ds = []"
    by (auto simp add: numeral_nat_def read_nat_snoc)
  show ?case
  proof (cases "ds = []")
    case True
    with n have "n = digit_val ch" by (simp add: read_nat_def)
    with ch True show ?thesis
      using digit_char(1,2) [OF ch] by (subst show_nat.simps) simp
  next
    case False
    with z have h: "hd ds \<noteq> CHR ''0''" by auto
    with ds False have pos: "0 < read_nat ds" by (rule_tac read_nat_pos)
    from ds False h have "numeral_nat ds (read_nat ds)" by (simp add: numeral_nat_def)
    then have "ds = show_nat (read_nat ds)" by (rule snoc.IH)
    moreover have "n div 10 = read_nat ds" "n mod 10 = digit_val ch" "\<not> n < 10"
      using n pos digit_char(1) [OF ch] by simp_all
    ultimately show ?thesis
      using digit_char(2) [OF ch] by (subst show_nat.simps) simp
  qed
qed

lemma numeral_int_unique: "numeral_int s i \<Longrightarrow> s = show_int i"
proof (cases "i < 0")
  case True
  assume "numeral_int s i"
  with True have "s \<noteq> []" "hd s = CHR ''-''" "tl s = show_nat (nat (- i))"
    by (simp_all add: numeral_int_def numeral_nat_unique)
  then have "s = CHR ''-'' # show_nat (nat (- i))"
    by (cases s) simp_all
  with True show ?thesis by (simp add: show_int_def)
next
  case False
  assume "numeral_int s i"
  with False show ?thesis by (simp add: numeral_int_def show_int_def numeral_nat_unique)
qed

lemma show_port_8013: "show_int 8013 = ''8013''"
  by (simp add: show_int_def show_nat.simps)

section \<open>Serving\<close>

text \<open>
  Three facts about \<open>Serve\<close>: what it returns when the configured TLS files do not load,
  that a configuration lacking one of the two paths is served like the one with neither,
  and the calls it makes in that case.
\<close>

lemma Serve_tls_failure:
  assumes "ServerCertPath c \<noteq> []" and "ServerKeyPath c \<noteq> []"
      and "loadTLSConfig H (ServerCertPath c) (ServerKeyPath c) = Inl e"
  shows "Serve H c = ([LoadTLSConfig (ServerCertPath c) (ServerKeyPath c)], Some (Some e))"
  using assms by (simp add: Serve_def)

lemma Serve_without_pair:
  assumes "ServerCertPath c = [] \<or> ServerKeyPath c = []"
  shows "Serve H c = Serve H (c\<lparr>ServerKeyPath := [], ServerCertPath := []\<rparr>)"
  using assms by (auto simp add: Serve_def)

lemma Serve_trace_without_pair:
  assumes "ServerCertPath c = [] \<or> ServerKeyPath c = []"
  shows "fst (Serve H c) =
           [NewServer [], RegisterServiceServer,
            (if ServerSocketPath c \<noteq> [] then Listen ''unix'' (ServerSocketPath c)
             else Listen ''tcp'' ('':'' @ show_int (sint (Port c))))]
           @ (case net_Listen H (if ServerSocketPath c \<noteq> [] then ''unix'' else ''tcp'')
                     (if ServerSocketPath c \<noteq> [] then ServerSocketPath c
                      else '':'' @ show_int (sint (Port c))) of
                Inl err \<Rightarrow> []
              | Inr lis \<Rightarrow> GoServe lis # (case gCtx_Done H of None \<Rightarrow> [] | Some w \<Rightarrow> [GracefulStop]))"
  using assms by (auto simp add: Serve_def Let_def split: sum.splits option.splits)

lemma Serve_loads_tls:
  "(\<exists>a b. LoadTLSConfig a b \<in> set (fst (Serve H c))) =
     (ServerCertPath c \<noteq> [] \<and> ServerKeyPath c \<noteq> [])"
proof (cases "ServerCertPath c = [] \<or> ServerKeyPath c = []")
  case True
  then show ?thesis
    by (auto simp add: Serve_trace_without_pair split: sum.splits option.splits)
next
  case False
  then show ?thesis
    by (cases "loadTLSConfig H (ServerCertPath c) (ServerKeyPath c)")
       (auto simp add: Serve_def Let_def split: sum.splits option.splits)
qed

text \<open>
  The \<open>net.Listen\<close> calls of \<open>Serve\<close>: none when the TLS files are configured and
  do not load, otherwise the one call for the selected transport.
\<close>

lemma Serve_listen_calls:
  "listen_calls (fst (Serve H c)) =
     (if ServerCertPath c \<noteq> [] \<and> ServerKeyPath c \<noteq> []
         \<and> isl (loadTLSConfig H (ServerCertPath c) (ServerKeyPath c))
      then []
      else [if ServerSocketPath c \<noteq> [] then (''unix'', ServerSocketPath c)
            else (''tcp'', '':'' @ show_int (sint (Port c)))])"
proof (cases "ServerCertPath c \<noteq> [] \<and> ServerKeyPath c \<noteq> []")
  case True
  then show ?thesis
    by (cases "loadTLSConfig H (ServerCertPath c) (ServerKeyPath c)")
       (simp_all add: Serve_def Let_def split: sum.splits option.splits)
next
  case False
  then show ?thesis
    by (auto simp add: Serve_def Let_def split: sum.splits option.splits)
qed

text \<open>
  C7 as stated, a unix listener for every configuration with a socket path, fails: with
  a certificate and a key configured that cannot be loaded, \<open>Serve\<close> returns the loader's
  error before it creates any listener.
\<close>

theorem C7_counterexample:
  "Serve (host_bad_tls (Some CtxCancelled)) cfg_unix_tls =
     ([LoadTLSConfig ''cert.pem'' ''key.pem''],
      Some (Some ''open cert.pem: no such file or directory''))"
  by (simp add: Serve_def host_bad_tls_def cfg_unix_tls_def)

text \<open>
  C7, amended. With a non-empty socket path \<open>Serve\<close> never asks for a TCP listener,
  whatever the port is: its only possible \<open>net.Listen\<close> call is the unix one at that path.
  When certificate and key are both configured and do not load, \<open>Serve\<close> returns that
  error and creates no listener. In every other case it makes exactly one \<open>net.Listen\<close>
  call: unix at the socket path when that is non-empty, and otherwise TCP at the address
  made of a colon and the decimal numeral of the port.
\<close>

theorem C7_transport_when_reached:
  "(ServerSocketPath c \<noteq> [] \<longrightarrow>
      set (listen_calls (fst (Serve H c))) \<subseteq> {(''unix'', ServerSocketPath c)})
   \<and> (ServerCertPath c \<noteq> [] \<and> ServerKeyPath c \<noteq> []
        \<and> loadTLSConfig H (ServerCertPath c) (ServerKeyPath c) = Inl e \<longrightarrow>
      listen_calls (fst (Serve H c)) = [] \<and> snd (Serve H c) = Some (Some e))
   \<and> (\<not> (ServerCertPath c \<noteq> [] \<and> ServerKeyPath c \<noteq> []
          \<and> isl (loadTLSConfig H (ServerCertPath c) (ServerKeyPath c))) \<longrightarrow>
      (ServerSocketPath c \<noteq> [] \<longrightarrow>
         listen_calls (fst (Serve H c)) = [(''unix'', ServerSocketPath c)])
      \<and> (ServerSocketPath c = [] \<longrightarrow>
         (\<exists>ds. listen_calls (fst (Serve H c)) = [(''tcp'', CHR '':'' # ds)]
               \<and> numeral_int ds (sint (Port c)))))"
proof (intro conjI impI)
  assume "ServerSocketPath c \<noteq> []"
  then show "set (listen_calls (fst (Serve H c))) \<subseteq> {(''unix'', ServerSocketPath c)}"
    by (simp add: Serve_listen_calls)
next
  assume f: "ServerCertPath c \<noteq> [] \<and> ServerKeyPath c \<noteq> []
        \<and> loadTLSConfig H (ServerCertPath c) (ServerKeyPath c) = Inl e"
  then have "Serve H c = ([LoadTLSConfig (ServerCertPath c) (ServerKeyPath c)], Some (Some e))"
    by (simp add: Serve_tls_failure)
  then show "listen_calls (fst (Serve H c)) = []" and "snd (Serve H c) = Some (Some e)"
    by simp_all
next
  assume ok: "\<not> (ServerCertPath c \<noteq> [] \<and> ServerKeyPath c \<noteq> []
             \<and> isl (loadTLSConfig H (ServerCertPath c) (ServerKeyPath c)))"
  {
    assume "ServerSocketPath c \<noteq> []"
    with ok show "listen_calls (fst (Serve H c)) = [(''unix'', ServerSocketPath c)]"
      by (simp add: Serve_listen_calls)
  }
  {
    assume "ServerSocketPath c = []"
    with ok have "listen_calls (fst (Serve H c)) =
        [(''tcp'', CHR '':'' # show_int (sint (Port c)))]"
      by (simp add: Serve_listen_calls)
    then show "\<exists>ds. listen_calls (fst (Serve H c)) = [(''tcp'', CHR '':'' # ds)]
               \<and> numeral_int ds (sint (Port c))"
      using numeral_int_show_int by blast
  }
qed

text \<open>
  The amended C7 at a configuration with both a socket path and a port, at one with a
  port only, and at one whose TLS files cannot be read.
\<close>

theorem C7_transport_when_reached_witness:
  "ServerSocketPath cfg_unix \<noteq> []
   \<and> listen_calls (fst (Serve (host0 (Some CtxCancelled)) cfg_unix)) = [(''unix'', ''/tmp/flagd.sock'')]
   \<and> ServerSocketPath cfg_tcp = []
   \<and> listen_calls (fst (Serve (host0 (Some CtxCancelled)) cfg_tcp)) = [(''tcp'', '':8013'')]
   \<and> numeral_int ''8013'' (sint (Port cfg_tcp))
   \<and> ServerCertPath cfg_unix_tls \<noteq> [] \<and> ServerKeyPath cfg_unix_tls \<noteq> []
   \<and> loadTLSConfig (host_bad_tls (Some CtxCancelled)) (ServerCertPath cfg_unix_tls)
        (ServerKeyPath cfg_unix_tls) = Inl ''open cert.pem: no such file or directory''
   \<and> listen_calls (fst (Serve (host_bad_tls (Some CtxCancelled)) cfg_unix_tls)) = []
   \<and> snd (Serve (host_bad_tls (Some CtxCancelled)) cfg_unix_tls) =
       Some (Some ''open cert.pem: no such file or directory'')"
proof -
  have u: "ServerSocketPath cfg_unix \<noteq> []" "ServerCertPath cfg_unix = []"
    "ServerSocketPath cfg_unix = ''/tmp/flagd.sock''"
    by (simp_all add: cfg_unix_def)
  have t: "ServerSocketPath cfg_tcp = []" "ServerCertPath cfg_tcp = []" "sint (Port cfg_tcp) = 8013"
    by (simp_all add: cfg_tcp_def)
  have b: "ServerCertPath cfg_unix_tls \<noteq> []" "ServerKeyPath cfg_unix_tls \<noteq> []"
    "loadTLSConfig (host_bad_tls (Some CtxCancelled)) (ServerCertPath cfg_unix_tls)
        (ServerKeyPath cfg_unix_tls) = Inl ''open cert.pem: no such file or directory''"
    by (simp_all add: cfg_unix_tls_def host_bad_tls_def)
  have unix: "listen_calls (fst (Serve (host0 (Some CtxCancelled)) cfg_unix)) =
                [(''unix'', ''/tmp/flagd.sock'')]"
    using u C7_transport_when_reached [of cfg_unix "host0 (Some CtxCancelled)"]
    by simp
  obtain ds where ds: "listen_calls (fst (Serve (host0 (Some CtxCancelled)) cfg_tcp)) =
                         [(''tcp'', CHR '':'' # ds)]"
      and num: "numeral_int ds (sint (Port cfg_tcp))"
    using t C7_transport_when_reached [of cfg_tcp "host0 (Some CtxCancelled)"]
    by auto
  from num have "ds = ''8013''"
    using numeral_int_unique [of ds 8013] by (simp add: t show_port_8013)
  with ds num have tcp: "listen_calls (fst (Serve (host0 (Some CtxCancelled)) cfg_tcp)) =
                           [(''tcp'', '':8013'')]"
    and num': "numeral_int ''8013'' (sint (Port cfg_tcp))"
    by simp_all
  have bad: "listen_calls (fst (Serve (host_bad_tls (Some CtxCancelled)) cfg_unix_tls)) = []
             \<and> snd (Serve (host_bad_tls (Some CtxCancelled)) cfg_unix_tls) =
                 Some (Some ''open cert.pem: no such file or directory'')"
    using b C7_transport_when_reached [of cfg_unix_tls "host_bad_tls (Some CtxCancelled)"
         "''open cert.pem: no such file or directory''"]
    by blast
  show ?thesis
    using u(1) t(1) b unix tcp num' bad by blast
qed

text \<open>
  C5 as stated, no listener for a configuration with only one of certificate and key,
  fails: \<open>Serve\<close> does not validate the pair. With a certificate path and no key path it
  creates a plain server and the listener, and serves.
\<close>

theorem C5_counterexample:
  "Serve (host0 (Some CtxCancelled)) cfg_cert_only =
     ([NewServer [], RegisterServiceServer, Listen ''tcp'' '':8013'',
       GoServe (''tcp'', '':8013''), GracefulStop], Some None)"
  by (simp add: Serve_def host0_def cfg_cert_only_def show_port_8013)

text \<open>
  C5, amended. The pair of paths is not validated. \<open>Serve\<close> calls the TLS loader exactly
  when certificate path and key path are both non-empty. A configuration with exactly one
  of the two set is served as the configuration with neither: no TLS files are loaded,
  the server is created without credentials, and \<open>Serve\<close> goes on to create the
  listener.
\<close>

theorem C5_tls_only_with_both_paths:
  "((\<exists>a b. LoadTLSConfig a b \<in> set (fst (Serve H c))) =
      (ServerCertPath c \<noteq> [] \<and> ServerKeyPath c \<noteq> []))
   \<and> ((ServerCertPath c = []) \<noteq> (ServerKeyPath c = []) \<longrightarrow>
        Serve H c = Serve H (c\<lparr>ServerKeyPath := [], ServerCertPath := []\<rparr>)
        \<and> (\<forall>opts. NewServer opts \<in> set (fst (Serve H c)) \<longrightarrow> opts = [])
        \<and> take 3 (fst (Serve H c)) =
            [NewServer [], RegisterServiceServer,
             (if ServerSocketPath c \<noteq> [] then Listen ''unix'' (ServerSocketPath c)
              else Listen ''tcp'' ('':'' @ show_int (sint (Port c))))])"
proof (intro conjI impI)
  show "(\<exists>a b. LoadTLSConfig a b \<in> set (fst (Serve H c))) =
          (ServerCertPath c \<noteq> [] \<and> ServerKeyPath c \<noteq> [])"
    by (rule Serve_loads_tls)
next
  assume "(ServerCertPath c = []) \<noteq> (ServerKeyPath c = [])"
  then have one: "ServerCertPath c = [] \<or> ServerKeyPath c = []" by blast
  show "Serve H c = Serve H (c\<lparr>ServerKeyPath := [], ServerCertPath := []\<rparr>)"
    using one by (rule Serve_without_pair)
  show "\<forall>opts. NewServer opts \<in> set (fst (Serve H c)) \<longrightarrow> opts = []"
    using one by (auto simp add: Serve_trace_without_pair split: sum.splits option.splits)
  show "take 3 (fst (Serve H c)) =
          [NewServer [], RegisterServiceServer,
           (if ServerSocketPath c \<noteq> [] then Listen ''unix'' (ServerSocketPath c)
            else Listen ''tcp'' ('':'' @ show_int (sint (Port c))))]"
    using one by (simp add: Serve_trace_without_pair)
qed

text \<open>
  The amended C5 at the configuration with a certificate path only, and the loader call
  at a configuration with both paths.
\<close>

theorem C5_tls_only_with_both_paths_witness:
  "(ServerCertPath cfg_cert_only = []) \<noteq> (ServerKeyPath cfg_cert_only = [])
   \<and> Serve (host0 (Some CtxCancelled)) cfg_cert_only = Serve (host0 (Some CtxCancelled)) cfg_tcp
   \<and> NewServer [] \<in> set (fst (Serve (host0 (Some CtxCancelled)) cfg_cert_only))
   \<and> take 3 (fst (Serve (host0 (Some CtxCancelled)) cfg_cert_only)) =
       [NewServer [], RegisterServiceServer, Listen ''tcp'' '':8013'']
   \<and> LoadTLSConfig ''cert.pem'' ''key.pem'' \<in> set (fst (Serve (host0 (Some CtxCancelled)) cfg_tls))
   \<and> ServerCertPath cfg_tls \<noteq> [] \<and> ServerKeyPath cfg_tls \<noteq> []"
proof -
  have h: "(ServerCertPath cfg_cert_only = []) \<noteq> (ServerKeyPath cfg_cert_only = [])"
    by (simp add: cfg_cert_only_def)
  have c: "cfg_cert_only\<lparr>ServerKeyPath := [], ServerCertPath := []\<rparr> = cfg_tcp"
    by (simp add: cfg_cert_only_def cfg_tcp_def)
  have f: "ServerSocketPath cfg_cert_only = []" "sint (Port cfg_cert_only) = 8013"
    by (simp_all add: cfg_cert_only_def)
  have n: "NewServer [] \<in> set (fst (Serve (host0 (Some CtxCancelled)) cfg_cert_only))"
    by (simp add: Serve_def host0_def cfg_cert_only_def)
  have l: "LoadTLSConfig ''cert.pem'' ''key.pem'' \<in>
             set (fst (Serve (host0 (Some CtxCancelled)) cfg_tls))"
    by (simp add: Serve_def host0_def cfg_tls_def)
  have x: "Serve (host0 (Some CtxCancelled)) cfg_cert_only =
             Serve (host0 (Some CtxCancelled))
               (cfg_cert_only\<lparr>ServerKeyPath := [], ServerCertPath := []\<rparr>)
           \<and> take 3 (fst (Serve (host0 (Some CtxCancelled)) cfg_cert_only)) =
               [NewServer [], RegisterServiceServer,
                (if ServerSocketPath cfg_cert_only \<noteq> []
                 then Listen ''unix'' (ServerSocketPath cfg_cert_only)
                 else Listen ''tcp'' ('':'' @ show_int (sint (Port cfg_cert_only))))]"
    using h C5_tls_only_with_both_paths [of "host0 (Some CtxCancelled)" cfg_cert_only]
    by blast
  have one: "Serve (host0 (Some CtxCancelled)) cfg_cert_only =
               Serve (host0 (Some CtxCancelled)) cfg_tcp"
    using conjunct1 [OF x] unfolding c .
  have three: "take 3 (fst (Serve (host0 (Some CtxCancelled)) cfg_cert_only)) =
               [NewServer [], RegisterServiceServer, Listen ''tcp'' '':8013'']"
    using conjunct2 [OF x] by (simp add: f show_port_8013)
  have both: "ServerCertPath cfg_tls \<noteq> [] \<and> ServerKeyPath cfg_tls \<noteq> []"
    using l C5_tls_only_with_both_paths [of "host0 (Some CtxCancelled)" cfg_tls]
    by blast
  show ?thesis
    using h n l one three both by blast
qed

text \<open>
  C3 asks for a non-nil error from \<open>Serve\<close> when the accept loop fails after the
  service started serving. The code returns \<open>nil\<close> there: the failure of the function
  given to \<open>g.Go\<close> closes \<open>gCtx.Done()\<close>, \<open>Serve\<close> wakes up, stops the server and
  returns the constant \<open>nil\<close>; the error kept by the group is never read.
\<close>

theorem C3_accept_failure_returns_nil:
  assumes "GoServe lis \<in> set (fst (Serve H c))"
      and "gCtx_Done H = Some (AcceptLoopFailed e)"
  shows "snd (Serve H c) = Some None"
  using assms
  by (auto simp add: Serve_def Let_def split: sum.splits if_splits option.splits prod.splits)

text \<open>
  The accept loop on the TCP listener fails with a closed-connection error.
\<close>

theorem C3_accept_failure_returns_nil_witness:
  "GoServe (''tcp'', '':8013'') \<in>
     set (fst (Serve (host0 (Some (AcceptLoopFailed ''use of closed network connection''))) cfg_tcp))
   \<and> gCtx_Done (host0 (Some (AcceptLoopFailed ''use of closed network connection''))) =
       Some (AcceptLoopFailed ''use of closed network connection'')
   \<and> snd (Serve (host0 (Some (AcceptLoopFailed ''use of closed network connection''))) cfg_tcp) =
       Some None"
proof -
  have h1: "GoServe (''tcp'', '':8013'') \<in>
     set (fst (Serve (host0 (Some (AcceptLoopFailed ''use of closed network connection''))) cfg_tcp))"
    by (simp add: Serve_def host0_def cfg_tcp_def show_port_8013)
  have h2: "gCtx_Done (host0 (Some (AcceptLoopFailed ''use of closed network connection''))) =
       Some (AcceptLoopFailed ''use of closed network connection'')"
    by (simp add: host0_def)
  show ?thesis
    using h1 h2 C3_accept_failure_returns_nil [OF h1 h2] by simp
qed

end
